theory Spec2Isabelle
  imports Complex_Main
begin

section \<open>Data model\<close>

text \<open>
  The drawing pad is a React component \<^verbatim>\<open>Canvas\<close> with three state cells
  (\<^verbatim>\<open>isDrawing\<close>, \<^verbatim>\<open>history\<close>, \<^verbatim>\<open>currentPath\<close>), a pure renderer
  \<^verbatim>\<open>drawSmoothedPath\<close>, pointer handlers and an imperative handle, plus the
  \<^verbatim>\<open>App\<close> component with \<^verbatim>\<open>handleBeautify\<close>.

  JavaScript numbers are modelled as \<^typ>\<open>real\<close>: rounding and overflow of IEEE
  doubles are not represented. Drawing on a 2D context is modelled as the list
  of calls made on it.

  A handler is a closure built by a render: the \<^verbatim>\<open>isDrawing\<close> and
  \<^verbatim>\<open>currentPath\<close> it tests are the values the cells had at that render
  (\<^verbatim>\<open>useCallback\<close> with these dependencies; the listeners are replaced by the
  effect that follows a render). The updates it queues act on the values React
  holds, which later handlers may have changed since. So a handler that reads
  a cell takes two states: the one captured by the render that built it, and
  the one React holds; it returns the state React holds once its updates have
  been applied. Updater functions (\<^verbatim>\<open>prev => ...\<close>) read the held state, plain
  reads the captured one.
\<close>

text \<open>\<^verbatim>\<open>interface CanvasProps { strokeColor; strokeWidth; canvasColor }\<close>\<close>

record CanvasProps =
  strokeColor :: string
  strokeWidth :: real
  canvasColor :: string

text \<open>\<^verbatim>\<open>Point\<close> and \<^verbatim>\<open>Path\<close> of \<^verbatim>\<open>types.ts\<close>, as the component uses them.\<close>

record Point =
  x :: real
  y :: real

record Path =
  points :: "Point list"
  color :: string
  strokeWidth :: real

text \<open>
  The canvas element as far as the code reads it: the top-left corner of
  \<^verbatim>\<open>getBoundingClientRect()\<close> and the pixel dimensions.
\<close>

record HTMLCanvasElement =
  rect_left :: real
  rect_top :: real
  width :: nat
  height :: nat

datatype Touch = Touch (clientX: real) (clientY: real)

datatype Event = MouseEvent real real | TouchEvent "Touch list"

text \<open>The calls made on a \<^verbatim>\<open>CanvasRenderingContext2D\<close>, in order.\<close>

datatype CtxOp =
    SetFillStyle string
  | FillRect real real real real
  | SetStrokeStyle string
  | SetLineWidth real
  | SetLineCap string
  | SetLineJoin string
  | BeginPath
  | MoveTo real real
  | LineTo real real
  | QuadraticCurveTo real real real real
  | Stroke
  | DrawImage string real real real real

text \<open>The three \<^verbatim>\<open>useState\<close> cells of \<^verbatim>\<open>Canvas\<close>.\<close>

record CanvasState =
  isDrawing :: bool
  history :: "Path list"
  currentPath :: "Path option"

definition initialState :: CanvasState where
  "initialState = \<lparr>isDrawing = False, history = [], currentPath = None\<rparr>"

text \<open>
  What the export reads from the browser: the mounted canvas element
  (\<^verbatim>\<open>canvasRef.current\<close>), whether \<^verbatim>\<open>getContext('2d')\<close> yields a context, and
  the browser's \<^verbatim>\<open>toDataURL('image/png')\<close> as a function of the canvas size and
  of what was drawn on the fresh canvas.
\<close>

record Env =
  canvasRef :: "HTMLCanvasElement option"
  getContext2d :: bool
  toDataURL :: "nat \<Rightarrow> nat \<Rightarrow> CtxOp list \<Rightarrow> string"

section \<open>Stroke renderer\<close>

text \<open>
  The loop \<^verbatim>\<open>for (let i = 1; i < points.length - 2; i++)\<close> of
  \<^verbatim>\<open>drawSmoothedPath\<close>, from index \<open>i\<close> on.
\<close>

function curveLoop :: "Point list \<Rightarrow> nat \<Rightarrow> CtxOp list" where
  "curveLoop pts i =
     (if int i < int (length pts) - 2 then
        QuadraticCurveTo (x (pts ! i)) (y (pts ! i))
          ((x (pts ! i) + x (pts ! (i + 1))) / 2)
          ((y (pts ! i) + y (pts ! (i + 1))) / 2)
        # curveLoop pts (i + 1)
      else [])"
  by pat_completeness auto
termination
  by (relation "measure (\<lambda>(pts, i). length pts - i)") auto

declare curveLoop.simps [simp del]

definition drawSmoothedPath :: "Path \<Rightarrow> CtxOp list" where
  "drawSmoothedPath path =
     [SetStrokeStyle (color path), SetLineWidth (Path.strokeWidth path),
      SetLineCap ''round'', SetLineJoin ''round'']
     @ (if length (points path) = 0 then []
        else
          [BeginPath, MoveTo (x (points path ! 0)) (y (points path ! 0))]
          @ (if length (points path) < 3 then
               (if length (points path) > 1
                then [LineTo (x (points path ! 1)) (y (points path ! 1))]
                else [LineTo (x (points path ! 0)) (y (points path ! 0))])
             else
               curveLoop (points path) 1
               @ [QuadraticCurveTo
                    (x (points path ! (length (points path) - 2)))
                    (y (points path ! (length (points path) - 2)))
                    (x (points path ! (length (points path) - 1)))
                    (y (points path ! (length (points path) - 1)))])
          @ [Stroke])"

text \<open>
  Reading a list of context calls as a canvas path: the points the pen is put
  on (the target of \<^verbatim>\<open>moveTo\<close> and the end point of every segment), and the
  control points of the quadratic segments.
\<close>

fun anchors :: "CtxOp list \<Rightarrow> Point list" where
  "anchors [] = []"
| "anchors (MoveTo a b # ops) = \<lparr>x = a, y = b\<rparr> # anchors ops"
| "anchors (LineTo a b # ops) = \<lparr>x = a, y = b\<rparr> # anchors ops"
| "anchors (QuadraticCurveTo ca cb a b # ops) = \<lparr>x = a, y = b\<rparr> # anchors ops"
| "anchors (_ # ops) = anchors ops"

fun controls :: "CtxOp list \<Rightarrow> Point list" where
  "controls [] = []"
| "controls (QuadraticCurveTo ca cb a b # ops) = \<lparr>x = ca, y = cb\<rparr> # controls ops"
| "controls (_ # ops) = controls ops"

definition midPoint :: "Point \<Rightarrow> Point \<Rightarrow> Point" where
  "midPoint p q = \<lparr>x = (x p + x q) / 2, y = (y p + y q) / 2\<rparr>"

section \<open>Drawing surface controller\<close>

text \<open>\<^verbatim>\<open>getCoordinates\<close>: viewport coordinates to canvas-local ones.\<close>

definition getCoordinates :: "HTMLCanvasElement option \<Rightarrow> Event \<Rightarrow> Point option" where
  "getCoordinates canvas event =
     (case canvas of
        None \<Rightarrow> None
      | Some c \<Rightarrow>
          (case event of
             TouchEvent touches \<Rightarrow>
               (if length touches = 0 then None
                else Some \<lparr>x = clientX (touches ! 0) - rect_left c,
                           y = clientY (touches ! 0) - rect_top c\<rparr>)
           | MouseEvent cx cy \<Rightarrow>
               Some \<lparr>x = cx - rect_left c, y = cy - rect_top c\<rparr>))"

text \<open>
  The pointer handlers. \<^verbatim>\<open>event.preventDefault()\<close> has no effect on the
  component state and is left out. \<^verbatim>\<open>startDrawing\<close> reads no state cell.
  \<^verbatim>\<open>draw\<close> tests \<^verbatim>\<open>isDrawing\<close> and \<^verbatim>\<open>currentPath\<close> as captured by the
  render (\<open>rendered\<close>), and its updater
  \<^verbatim>\<open>prev => prev ? {...prev, points: [...prev.points, coords]} : null\<close> runs on
  the path React holds (\<open>s\<close>). \<^verbatim>\<open>finishDrawing\<close> tests the captured cells and
  appends the captured \<^verbatim>\<open>currentPath\<close> to the held History
  (\<^verbatim>\<open>setHistory(prev => [...prev, currentPath])\<close>).
\<close>

definition startDrawing :: "CanvasProps \<Rightarrow> HTMLCanvasElement option \<Rightarrow> Event \<Rightarrow> CanvasState \<Rightarrow> CanvasState" where
  "startDrawing props canvas event s =
     (case getCoordinates canvas event of
        None \<Rightarrow> s
      | Some coords \<Rightarrow>
          s\<lparr>isDrawing := True,
            currentPath := Some \<lparr>points = [coords],
                                 color = strokeColor props,
                                 strokeWidth = CanvasProps.strokeWidth props\<rparr>\<rparr>)"

definition draw :: "CanvasProps \<Rightarrow> HTMLCanvasElement option \<Rightarrow> Event \<Rightarrow> CanvasState \<Rightarrow> CanvasState \<Rightarrow> CanvasState" where
  "draw props canvas event rendered s =
     (if \<not> isDrawing rendered then s
      else
        (case getCoordinates canvas event of
           None \<Rightarrow> s
         | Some coords \<Rightarrow>
             (case currentPath rendered of
                None \<Rightarrow> s
              | Some captured \<Rightarrow>
                  s\<lparr>currentPath :=
                      (case currentPath s of
                         Some prev \<Rightarrow> Some (prev\<lparr>points := points prev @ [coords]\<rparr>)
                       | None \<Rightarrow> None)\<rparr>)))"

definition finishDrawing :: "CanvasProps \<Rightarrow> CanvasState \<Rightarrow> CanvasState \<Rightarrow> CanvasState" where
  "finishDrawing props rendered s =
     (if \<not> isDrawing rendered then s
      else
        (case currentPath rendered of
           None \<Rightarrow> s
         | Some cp \<Rightarrow>
             s\<lparr>isDrawing := False,
               history := (if length (points cp) > 1 then history s @ [cp] else history s),
               currentPath := None\<rparr>))"

text \<open>
  \<^verbatim>\<open>Array.prototype.slice(start, end)\<close>: a negative index counts from the end,
  and both indices are clamped to the array.
\<close>

definition slice :: "'a list \<Rightarrow> int \<Rightarrow> int \<Rightarrow> 'a list" where
  "slice xs start stop =
     (let len = int (length xs);
          k = (if start < 0 then max (len + start) 0 else min start len);
          final = (if stop < 0 then max (len + stop) 0 else min stop len)
      in take (nat (final - k)) (drop (nat k) xs))"

text \<open>The imperative handle: \<^verbatim>\<open>clear\<close>, \<^verbatim>\<open>undo\<close>, \<^verbatim>\<open>loadFromHistory\<close>.\<close>

definition clear :: "CanvasState \<Rightarrow> CanvasState" where
  "clear s = s\<lparr>history := [], currentPath := None\<rparr>"

definition undo :: "CanvasState \<Rightarrow> CanvasState" where
  "undo s = s\<lparr>history := slice (history s) 0 (- 1), currentPath := None\<rparr>"

definition loadFromHistory :: "Path list \<Rightarrow> CanvasState \<Rightarrow> CanvasState" where
  "loadFromHistory newHistory s = s\<lparr>history := newHistory, currentPath := None\<rparr>"

text \<open>
  \<^verbatim>\<open>getImageData\<close>: a temporary canvas of the same size, filled with the
  background colour, with the committed paths drawn on it, encoded by the
  browser. The empty string when no canvas or no context is available. The
  state it is given is the one captured by the render that built the handle
  (the handle is rebuilt by every render).
\<close>

definition getImageData :: "CanvasProps \<Rightarrow> Env \<Rightarrow> CanvasState \<Rightarrow> string" where
  "getImageData props env s =
     (case canvasRef env of
        None \<Rightarrow> ''''
      | Some canvas \<Rightarrow>
          (if \<not> getContext2d env then ''''
           else
             toDataURL env (width canvas) (height canvas)
               ([SetFillStyle (canvasColor props),
                 FillRect 0 0 (real (width canvas)) (real (height canvas))]
                @ concat (map drawSmoothedPath (history s)))))"

text \<open>
  \<^verbatim>\<open>redrawCanvas\<close>: the calls made on the visible canvas; the in-progress path
  is drawn after the committed ones.
\<close>

definition redrawCanvas :: "CanvasProps \<Rightarrow> Env \<Rightarrow> CanvasState \<Rightarrow> CtxOp list" where
  "redrawCanvas props env s =
     (case canvasRef env of
        None \<Rightarrow> []
      | Some canvas \<Rightarrow>
          (if \<not> getContext2d env then []
           else
             [SetFillStyle (canvasColor props),
              FillRect 0 0 (real (width canvas)) (real (height canvas))]
             @ concat (map drawSmoothedPath
                 (case currentPath s of
                    Some cp \<Rightarrow> history s @ [cp]
                  | None \<Rightarrow> history s))))"

subsection \<open>The revision of the component with \<^verbatim>\<open>loadImage\<close>\<close>

text \<open>
  The revision of \<^verbatim>\<open>Canvas\<close> that \<^verbatim>\<open>handleBeautify\<close> drives has the same
  state cells, pointer handlers, \<^verbatim>\<open>clear\<close>, \<^verbatim>\<open>undo\<close> and \<^verbatim>\<open>loadFromHistory\<close>;
  it strokes every path as a polyline and adds \<^verbatim>\<open>loadImage\<close>.
  \<^verbatim>\<open>strokePolyline\<close> is the body of the \<^verbatim>\<open>forEach\<close> over the paths there.
\<close>

definition strokePolyline :: "Path \<Rightarrow> CtxOp list" where
  "strokePolyline path =
     [SetStrokeStyle (color path), SetLineWidth (Path.strokeWidth path),
      SetLineCap ''round'', SetLineJoin ''round'', BeginPath]
     @ (if length (points path) > 0 then
          MoveTo (x (points path ! 0)) (y (points path ! 0))
          # map (\<lambda>point. LineTo (x point) (y point)) (points path)
          @ [Stroke]
        else [])"

definition getImageData_polyline :: "CanvasProps \<Rightarrow> Env \<Rightarrow> CanvasState \<Rightarrow> string" where
  "getImageData_polyline props env s =
     (case canvasRef env of
        None \<Rightarrow> ''''
      | Some canvas \<Rightarrow>
          (if \<not> getContext2d env then ''''
           else
             toDataURL env (width canvas) (height canvas)
               ([SetFillStyle (canvasColor props),
                 FillRect 0 0 (real (width canvas)) (real (height canvas))]
                @ concat (map strokePolyline (history s)))))"

text \<open>
  \<^verbatim>\<open>loadImage\<close> returns early without a canvas or a context; otherwise it
  creates an image, registers \<^verbatim>\<open>onload\<close> and sets \<^verbatim>\<open>img.src\<close>. The result is
  the URL whose loading was started, if any. \<^verbatim>\<open>loadImage_onload\<close> is the
  callback, run when (and if) the browser has decoded the image; it reads the
  size the canvas element has at that moment.
\<close>

definition loadImage :: "Env \<Rightarrow> string \<Rightarrow> string option" where
  "loadImage env imageUrl =
     (case canvasRef env of
        None \<Rightarrow> None
      | Some canvas \<Rightarrow> (if \<not> getContext2d env then None else Some imageUrl))"

definition loadImage_onload :: "CanvasProps \<Rightarrow> HTMLCanvasElement \<Rightarrow> string \<Rightarrow> CanvasState \<Rightarrow> CanvasState \<times> CtxOp list" where
  "loadImage_onload props canvas img s =
     (s\<lparr>history := [], currentPath := None\<rparr>,
      [SetFillStyle (canvasColor props),
       FillRect 0 0 (real (width canvas)) (real (height canvas)),
       DrawImage img 0 0 (real (width canvas)) (real (height canvas))])"

subsection \<open>Sequences of operations\<close>

text \<open>
  The component between two events: the state captured by the last render
  (the one the attached handlers test) and the state React holds.
\<close>

record Component =
  rendered :: CanvasState
  held :: CanvasState

definition component :: "CanvasState \<Rightarrow> Component" where
  "component s = \<lparr>rendered = s, held = s\<rparr>"

text \<open>
  What happens to the component, as the browser, React and the owner of the
  handle trigger it: \<^verbatim>\<open>mousedown\<close>/\<^verbatim>\<open>touchstart\<close>,
  \<^verbatim>\<open>mousemove\<close>/\<^verbatim>\<open>touchmove\<close>, \<^verbatim>\<open>mouseup\<close>/\<^verbatim>\<open>mouseleave\<close>/\<^verbatim>\<open>touchend\<close>, the
  handle's methods, the completion of an image load, and a render with the
  effect that attaches the handlers it built. An event carries the props of
  the render that built its handler and the canvas element current when it
  happens.
\<close>

datatype Action =
    PointerDown CanvasProps "HTMLCanvasElement option" Event
  | PointerMove CanvasProps "HTMLCanvasElement option" Event
  | PointerUp CanvasProps
  | Clear
  | Undo
  | LoadFromHistory "Path list"
  | ImageLoaded CanvasProps HTMLCanvasElement string
  | Render

fun step :: "Action \<Rightarrow> Component \<Rightarrow> Component" where
  "step (PointerDown props canvas event) k =
     k\<lparr>held := startDrawing props canvas event (held k)\<rparr>"
| "step (PointerMove props canvas event) k =
     k\<lparr>held := draw props canvas event (rendered k) (held k)\<rparr>"
| "step (PointerUp props) k = k\<lparr>held := finishDrawing props (rendered k) (held k)\<rparr>"
| "step Clear k = k\<lparr>held := clear (held k)\<rparr>"
| "step Undo k = k\<lparr>held := undo (held k)\<rparr>"
| "step (LoadFromHistory newHistory) k = k\<lparr>held := loadFromHistory newHistory (held k)\<rparr>"
| "step (ImageLoaded props canvas img) k =
     k\<lparr>held := fst (loadImage_onload props canvas img (held k))\<rparr>"
| "step Render k = k\<lparr>rendered := held k\<rparr>"

text \<open>Any interleaving of events and renders.\<close>

definition steps :: "Action list \<Rightarrow> Component \<Rightarrow> Component" where
  "steps as k = fold step as k"

text \<open>
  An action whose handler was built from the state React holds, and a
  sequence of actions with a render after each: every event finds the
  handlers of the state the previous one left.
\<close>

definition settledStep :: "Action \<Rightarrow> CanvasState \<Rightarrow> CanvasState" where
  "settledStep a s = held (step a (component s))"

definition run :: "Action list \<Rightarrow> CanvasState \<Rightarrow> CanvasState" where
  "run as s = held (fold (\<lambda>a k. step Render (step a k)) as (component s))"

section \<open>The application: enhancement\<close>

text \<open>The two state cells of \<^verbatim>\<open>App\<close> that \<^verbatim>\<open>handleBeautify\<close> writes.\<close>

record AppState =
  isLoading :: bool
  error :: "string option"

text \<open>
  The outcome of one \<^verbatim>\<open>handleBeautify\<close>: the cells of \<^verbatim>\<open>App\<close>, the arguments
  of the calls made to the enhancement service, the arguments of the calls made
  to \<^verbatim>\<open>loadImage\<close>, and the state of the canvas component, which
  \<^verbatim>\<open>handleBeautify\<close> itself never writes.
\<close>

record Outcome =
  app :: AppState
  serviceCalls :: "string list"
  loadImageCalls :: "string list"
  canvasState :: CanvasState

text \<open>
  \<^verbatim>\<open>handleBeautify\<close>. In this revision of \<^verbatim>\<open>App.tsx\<close> the import of
  \<^verbatim>\<open>beautifyDrawing\<close> is commented out and nothing else binds the name, so
  evaluating \<^verbatim>\<open>beautifyDrawing(imageData)\<close> throws a \<^verbatim>\<open>ReferenceError\<close> before
  anything is called: \<^verbatim>\<open>catch\<close> stores its message (an \<^verbatim>\<open>Error\<close>'s, worded by
  the JavaScript engine; the parameter \<open>unbound\<close>), \<^verbatim>\<open>loadImage\<close> is not
  reached, and \<^verbatim>\<open>finally\<close> resets \<^verbatim>\<open>isLoading\<close>. \<open>handle\<close> says whether
  \<^verbatim>\<open>canvasRef.current\<close> of \<^verbatim>\<open>App\<close> is set.
\<close>

definition handleBeautify ::
  "string \<Rightarrow> bool \<Rightarrow> CanvasProps \<Rightarrow> Env \<Rightarrow> CanvasState \<Rightarrow> AppState \<Rightarrow> Outcome" where
  "handleBeautify unbound handle props env s a =
     (if \<not> handle then
        \<lparr>app = a, serviceCalls = [], loadImageCalls = [], canvasState = s\<rparr>
      else
        (let imageData = getImageData_polyline props env s in
         if length imageData < 100 then
           \<lparr>app = \<lparr>isLoading = False,
                    error = Some ''Canvas is empty. Please draw something first.''\<rparr>,
            serviceCalls = [], loadImageCalls = [], canvasState = s\<rparr>
         else
           \<lparr>app = \<lparr>isLoading = False, error = Some unbound\<rparr>,
            serviceCalls = [], loadImageCalls = [], canvasState = s\<rparr>))"

section \<open>Example inputs\<close>

text \<open>
  A mounted 300 by 150 canvas whose top-left corner is at (10, 20) in the
  viewport, two pen settings on the application's background colour, and two
  strokes: A with three points, B with two.
\<close>

definition exampleCanvas :: HTMLCanvasElement where
  "exampleCanvas = \<lparr>rect_left = 10, rect_top = 20, width = 300, height = 150\<rparr>"

definition redPen :: CanvasProps where
  "redPen = \<lparr>strokeColor = ''#EF4444'', strokeWidth = 5, canvasColor = ''#1e293b''\<rparr>"

definition bluePen :: CanvasProps where
  "bluePen = \<lparr>strokeColor = ''#3B82F6'', strokeWidth = 2, canvasColor = ''#1e293b''\<rparr>"

definition strokeA :: Path where
  "strokeA = \<lparr>points = [\<lparr>x = 5, y = 5\<rparr>, \<lparr>x = 7, y = 10\<rparr>, \<lparr>x = 10, y = 20\<rparr>],
              color = ''#EF4444'', strokeWidth = 5\<rparr>"

definition strokeB :: Path where
  "strokeB = \<lparr>points = [\<lparr>x = 0, y = 0\<rparr>, \<lparr>x = 30, y = 40\<rparr>],
              color = ''#3B82F6'', strokeWidth = 2\<rparr>"

text \<open>A tap: a path of a single point, as a press without a move leaves it.\<close>

definition tap :: Path where
  "tap = \<lparr>points = [\<lparr>x = 5, y = 5\<rparr>], color = ''#EF4444'', strokeWidth = 5\<rparr>"

text \<open>
  A PNG data URI of a 300 by 150 image of the single colour \<^verbatim>\<open>#1e293b\<close>, as
  \<^verbatim>\<open>toDataURL('image/png')\<close> gives for a canvas on which only the background
  was filled.
\<close>

definition blankPngDataURL :: string where
  "blankPngDataURL = ''data:image/png;base64,iVBORw0KGgoAAAANSUhEUgAAASwAAACWCAYAAABkW7XSAAABjklEQVR42u3UMQ0AAAjAMJTwowH/usAGJD1qYMciqwfggxABMCwAwwIMC8CwAAwLMCwAwwIwLMCwAAwLwLAAwwIwLADDAgwLwLAADAswLADDAjAswLAADAvAsADDAjAsAMMCDAvAsADDEgEwLADDAgwLwLAADAswLADDAjAswLAADAvAsADDAjAsAMMCDAvAsAAMCzAsAMMCMCzAsAAMC8CwAMMCMCwAwwIMC8CwAMMSATAsAMMCDAvAsAAMCzAsAMMCMCzAsAAMC8CwAMMCMCwAwwIMC8CwAAwLMCwAwwIwLMCwAAwLwLAAwwIwLADDAgwLwLAAwxICMCwAwwIMC8CwAAwLMCwAwwIwLMCwAAwLwLAAwwIwLADDAgwLwLAADAswLADDAjAswLAADAvAsADDAjAsAMMCDAvAsADDAjAsAMMCDAvAsAAMCzAsAMMCMCzAsAAMC8CwAMMCMCwAwwIMC8CwAAwLMCwAwwIwLMCwAAwLwLAAwwIwLADDAgwLwLAAwwIwLADDAgwL4K4F6Q1rQTf7tbMAAAAASUVORK5CYII=''"

definition exampleEnv :: Env where
  "exampleEnv = \<lparr>canvasRef = Some exampleCanvas, getContext2d = True,
                  toDataURL = (\<lambda>w h ops. blankPngDataURL)\<rparr>"

text \<open>
  The pointer-move actions of a list of move events, each with the props and
  the canvas element current when it arrives.
\<close>

definition moves :: "(CanvasProps \<times> HTMLCanvasElement option \<times> Event) list \<Rightarrow> Action list" where
  "moves ms = map (\<lambda>(props, canvas, event). PointerMove props canvas event) ms"

text \<open>The coordinate each move event of a list resolves to, if any.\<close>

definition resolved :: "(CanvasProps \<times> HTMLCanvasElement option \<times> Event) list \<Rightarrow> Point option list" where
  "resolved ms = map (\<lambda>(props, canvas, event). getCoordinates canvas event) ms"

text \<open>
  The History invariant of the data model: no committed path has fewer than
  two points.
\<close>

definition historyOk :: "CanvasState \<Rightarrow> bool" where
  "historyOk s = list_all (\<lambda>p. 2 \<le> length (points p)) (history s)"

text \<open>
  An action is admissible when it does not hand \<^verbatim>\<open>loadFromHistory\<close> a path of
  fewer than two points.
\<close>

fun admissible :: "Action \<Rightarrow> bool" where
  "admissible (LoadFromHistory newHistory) = list_all (\<lambda>p. 2 \<le> length (points p)) newHistory"
| "admissible _ = True"

text \<open>The actions that run \<^verbatim>\<open>draw\<close> or \<^verbatim>\<open>finishDrawing\<close>.\<close>

fun moveOrFinish :: "Action \<Rightarrow> bool" where
  "moveOrFinish (PointerMove props canvas event) = True"
| "moveOrFinish (PointerUp props) = True"
| "moveOrFinish _ = False"

section \<open>Stroke renderer: the smoothing scheme\<close>

text \<open>The loop issues one quadratic curve per index from \<open>i\<close> up to \<open>length - 3\<close>.\<close>

lemma curveLoop_map:
  "curveLoop pts i =
     map (\<lambda>j. QuadraticCurveTo (x (pts ! j)) (y (pts ! j))
                 ((x (pts ! j) + x (pts ! (j + 1))) / 2)
                 ((y (pts ! j) + y (pts ! (j + 1))) / 2))
       [i ..< length pts - 2]"
proof (induction pts i rule: curveLoop.induct)
  case (1 pts i)
  show ?case
  proof (cases "int i < int (length pts) - 2")
    case True
    then have lt: "i < length pts - 2" by linarith
    have u: "[i ..< length pts - 2] = i # [i + 1 ..< length pts - 2]"
      using lt by (simp add: upt_conv_Cons)
    from True "1.IH" show ?thesis
      by (subst curveLoop.simps) (simp add: u)
  next
    case False
    then have n: "\<not> i < length pts - 2" by linarith
    with False show ?thesis
      by (subst curveLoop.simps) simp
  qed
qed

text \<open>
  C1. For a path of at least 3 points the renderer sets the style, begins a
  path at the first point, issues for every index \<open>i\<close> from 1 to \<open>length - 3\<close>
  one quadratic curve with point \<open>i\<close> as control point and the midpoint of
  points \<open>i\<close> and \<open>i + 1\<close> as end point, then one quadratic curve with the
  second-to-last point as control point and the last point as end point, and
  strokes. For four points \<open>P0, P1, P2, P3\<close> the pen is put on \<open>P0\<close>, on the
  midpoint of \<open>P1\<close> and \<open>P2\<close>, and on \<open>P3\<close>, with \<open>P1\<close> then \<open>P2\<close> as control
  points.
\<close>

theorem drawSmoothedPath_commands:
  "(3 \<le> length (points p) \<longrightarrow>
      drawSmoothedPath p =
        [SetStrokeStyle (color p), SetLineWidth (Path.strokeWidth p),
         SetLineCap ''round'', SetLineJoin ''round'',
         BeginPath, MoveTo (x (points p ! 0)) (y (points p ! 0))]
        @ map (\<lambda>i. QuadraticCurveTo (x (points p ! i)) (y (points p ! i))
                     (x (midPoint (points p ! i) (points p ! (i + 1))))
                     (y (midPoint (points p ! i) (points p ! (i + 1)))))
            [1 ..< length (points p) - 2]
        @ [QuadraticCurveTo
             (x (points p ! (length (points p) - 2))) (y (points p ! (length (points p) - 2)))
             (x (points p ! (length (points p) - 1))) (y (points p ! (length (points p) - 1))),
           Stroke])
   \<and> anchors (drawSmoothedPath \<lparr>points = [P0, P1, P2, P3], color = c, strokeWidth = w\<rparr>)
       = [P0, midPoint P1 P2, P3]
   \<and> controls (drawSmoothedPath \<lparr>points = [P0, P1, P2, P3], color = c, strokeWidth = w\<rparr>)
       = [P1, P2]"
proof (intro conjI impI)
  assume "3 \<le> length (points p)"
  then show "drawSmoothedPath p =
        [SetStrokeStyle (color p), SetLineWidth (Path.strokeWidth p),
         SetLineCap ''round'', SetLineJoin ''round'',
         BeginPath, MoveTo (x (points p ! 0)) (y (points p ! 0))]
        @ map (\<lambda>i. QuadraticCurveTo (x (points p ! i)) (y (points p ! i))
                     (x (midPoint (points p ! i) (points p ! (i + 1))))
                     (y (midPoint (points p ! i) (points p ! (i + 1)))))
            [1 ..< length (points p) - 2]
        @ [QuadraticCurveTo
             (x (points p ! (length (points p) - 2))) (y (points p ! (length (points p) - 2)))
             (x (points p ! (length (points p) - 1))) (y (points p ! (length (points p) - 1))),
           Stroke]"
    by (auto simp add: drawSmoothedPath_def curveLoop_map midPoint_def)
next
  have l: "curveLoop [P0, P1, P2, P3] (Suc 0) =
      [QuadraticCurveTo (x P1) (y P1) ((x P1 + x P2) / 2) ((y P1 + y P2) / 2)]"
    by (simp add: curveLoop_map upt_conv_Cons)
  show "anchors (drawSmoothedPath \<lparr>points = [P0, P1, P2, P3], color = c, strokeWidth = w\<rparr>)
       = [P0, midPoint P1 P2, P3]"
    by (simp add: drawSmoothedPath_def l midPoint_def)
  show "controls (drawSmoothedPath \<lparr>points = [P0, P1, P2, P3], color = c, strokeWidth = w\<rparr>)
       = [P1, P2]"
    by (simp add: drawSmoothedPath_def l)
qed

text \<open>
  A path of five points: the loop runs for \<open>i = 1\<close> and \<open>i = 2\<close>. And the
  four-point case on numbers.
\<close>

theorem drawSmoothedPath_commands_witness:
  "3 \<le> length (points \<lparr>points = [\<lparr>x = 0, y = 0\<rparr>, \<lparr>x = 2, y = 0\<rparr>, \<lparr>x = 4, y = 2\<rparr>,
                                   \<lparr>x = 4, y = 6\<rparr>, \<lparr>x = 0, y = 8\<rparr>],
                         color = ''#EF4444'', strokeWidth = 5\<rparr>)
   \<and> drawSmoothedPath \<lparr>points = [\<lparr>x = 0, y = 0\<rparr>, \<lparr>x = 2, y = 0\<rparr>, \<lparr>x = 4, y = 2\<rparr>,
                                   \<lparr>x = 4, y = 6\<rparr>, \<lparr>x = 0, y = 8\<rparr>],
                         color = ''#EF4444'', strokeWidth = 5\<rparr> =
       [SetStrokeStyle ''#EF4444'', SetLineWidth 5, SetLineCap ''round'', SetLineJoin ''round'',
        BeginPath, MoveTo 0 0,
        QuadraticCurveTo 2 0 3 1, QuadraticCurveTo 4 2 4 4, QuadraticCurveTo 4 6 0 8,
        Stroke]
   \<and> anchors (drawSmoothedPath
        \<lparr>points = [\<lparr>x = 0, y = 0\<rparr>, \<lparr>x = 2, y = 0\<rparr>, \<lparr>x = 4, y = 2\<rparr>, \<lparr>x = 4, y = 6\<rparr>],
         color = ''#EF4444'', strokeWidth = 5\<rparr>)
       = [\<lparr>x = 0, y = 0\<rparr>, \<lparr>x = 3, y = 1\<rparr>, \<lparr>x = 4, y = 6\<rparr>]
   \<and> controls (drawSmoothedPath
        \<lparr>points = [\<lparr>x = 0, y = 0\<rparr>, \<lparr>x = 2, y = 0\<rparr>, \<lparr>x = 4, y = 2\<rparr>, \<lparr>x = 4, y = 6\<rparr>],
         color = ''#EF4444'', strokeWidth = 5\<rparr>)
       = [\<lparr>x = 2, y = 0\<rparr>, \<lparr>x = 4, y = 2\<rparr>]"
  using drawSmoothedPath_commands
    [of "\<lparr>points = [\<lparr>x = 0, y = 0\<rparr>, \<lparr>x = 2, y = 0\<rparr>, \<lparr>x = 4, y = 2\<rparr>,
                      \<lparr>x = 4, y = 6\<rparr>, \<lparr>x = 0, y = 8\<rparr>],
            color = ''#EF4444'', strokeWidth = 5\<rparr>"
        "\<lparr>x = 0, y = 0\<rparr>" "\<lparr>x = 2, y = 0\<rparr>" "\<lparr>x = 4, y = 2\<rparr>" "\<lparr>x = 4, y = 6\<rparr>"
        "''#EF4444''" 5]
  by (simp add: midPoint_def upt_conv_Cons)

section \<open>Renders between events\<close>

text \<open>A render right after an action leaves the component settled.\<close>

lemma render_after_step: "step Render (step a k) = component (held (step a k))"
  by (cases a) (simp_all add: component_def)

lemma run_settled: "run as s = fold settledStep as s"
proof -
  have "fold (\<lambda>a k. step Render (step a k)) as (component s) = component (fold settledStep as s)"
    by (induction as arbitrary: s) (simp_all add: render_after_step settledStep_def del: step.simps)
  then show ?thesis
    by (simp add: run_def component_def)
qed

lemma settledStep_simps:
  "settledStep (PointerDown props canvas event) s = startDrawing props canvas event s"
  "settledStep (PointerMove props canvas event) s = draw props canvas event s s"
  "settledStep (PointerUp props) s = finishDrawing props s s"
  "settledStep Clear s = clear s"
  "settledStep Undo s = undo s"
  "settledStep (LoadFromHistory newHistory) s = loadFromHistory newHistory s"
  "settledStep (ImageLoaded props element img) s = fst (loadImage_onload props element img s)"
  "settledStep Render s = s"
  by (simp_all add: settledStep_def component_def)

text \<open>
  With the handler built from the held state, the guard of \<^verbatim>\<open>draw\<close> and its
  updater see the same path.
\<close>

lemma draw_settled:
  "draw props canvas event s s =
     (if \<not> isDrawing s then s
      else
        (case getCoordinates canvas event of
           None \<Rightarrow> s
         | Some coords \<Rightarrow>
             (case currentPath s of
                None \<Rightarrow> s
              | Some prev \<Rightarrow>
                  s\<lparr>currentPath := Some (prev\<lparr>points := points prev @ [coords]\<rparr>)\<rparr>)))"
  by (simp add: draw_def split: option.splits)

section \<open>Drawing surface controller: strokes\<close>

text \<open>
  While a stroke is active and a render follows every event, move events that
  all resolve a coordinate append their coordinates, in order, to the
  in-progress path and change nothing else.
\<close>

lemma draw_moves:
  "isDrawing s \<Longrightarrow> currentPath s = Some p \<Longrightarrow> resolved ms = map Some pts \<Longrightarrow>
   fold settledStep (moves ms) s = s\<lparr>currentPath := Some (p\<lparr>points := points p @ pts\<rparr>)\<rparr>"
proof (induction ms arbitrary: s p pts)
  case Nil
  then show ?case by (simp add: moves_def resolved_def)
next
  case (Cons m ms)
  obtain pr c e where m: "m = (pr, c, e)" by (cases m)
  from Cons.prems(3) m obtain pt pts' where pts: "pts = pt # pts'"
    and pt: "getCoordinates c e = Some pt" and rest: "resolved ms = map Some pts'"
    by (cases pts) (auto simp: resolved_def)
  have d: "draw pr c e s s = s\<lparr>currentPath := Some (p\<lparr>points := points p @ [pt]\<rparr>)\<rparr>"
    using Cons.prems(1,2) pt by (simp add: draw_settled)
  have "fold settledStep (moves ms) (draw pr c e s s) =
     (draw pr c e s s)\<lparr>currentPath :=
        Some ((p\<lparr>points := points p @ [pt]\<rparr>)
                \<lparr>points := points (p\<lparr>points := points p @ [pt]\<rparr>) @ pts'\<rparr>)\<rparr>"
    using Cons.prems(1) rest by (intro Cons.IH) (simp_all add: d)
  then show ?case
    by (simp add: m d pts moves_def settledStep_simps)
qed

text \<open>
  When a render follows every event, a pointer-down that resolves \<open>p0\<close>, \<open>N\<close>
  pointer-moves that resolve \<open>pts\<close> and a pointer-up append, for \<open>N \<ge> 1\<close>, one
  path with the \<open>N + 1\<close> points \<open>p0 # pts\<close>, and nothing for \<open>N = 0\<close>.
\<close>

lemma stroke_commit_settled:
  assumes down: "getCoordinates c0 e0 = Some p0"
    and mv: "resolved ms = map Some pts"
  shows "currentPath (run (PointerDown pd c0 e0 # moves ms @ [PointerUp pu]) s) = None
    \<and> history (run (PointerDown pd c0 e0 # moves ms @ [PointerUp pu]) s) =
        (if 1 \<le> length ms then
           history s @ [\<lparr>points = p0 # pts, color = strokeColor pd,
                          strokeWidth = CanvasProps.strokeWidth pd\<rparr>]
         else history s)
    \<and> length (p0 # pts) = length ms + 1"
proof -
  let ?p = "\<lparr>points = [p0], color = strokeColor pd, strokeWidth = CanvasProps.strokeWidth pd\<rparr>"
  let ?s1 = "startDrawing pd c0 e0 s"
  let ?s2 = "fold settledStep (moves ms) ?s1"
  have s1: "?s1 = s\<lparr>isDrawing := True, currentPath := Some ?p\<rparr>"
    using down by (simp add: startDrawing_def)
  have s2: "?s2 = ?s1\<lparr>currentPath := Some (?p\<lparr>points := points ?p @ pts\<rparr>)\<rparr>"
    using mv by (intro draw_moves) (simp_all add: s1)
  have r: "run (PointerDown pd c0 e0 # moves ms @ [PointerUp pu]) s = finishDrawing pu ?s2 ?s2"
    by (simp add: run_settled settledStep_simps)
  have s3: "?s2 =
      s\<lparr>isDrawing := True,
        currentPath := Some \<lparr>points = p0 # pts, color = strokeColor pd,
                             strokeWidth = CanvasProps.strokeWidth pd\<rparr>\<rparr>"
    by (simp add: s2) (simp add: s1)
  have len: "length pts = length ms"
    using arg_cong [OF mv, of length] by (simp add: resolved_def)
  have "run (PointerDown pd c0 e0 # moves ms @ [PointerUp pu]) s =
      s\<lparr>isDrawing := False,
        history := (if pts \<noteq> [] then
           history s @ [\<lparr>points = p0 # pts, color = strokeColor pd,
                          strokeWidth = CanvasProps.strokeWidth pd\<rparr>]
         else history s),
        currentPath := None\<rparr>"
    by (simp only: r s3) (simp add: finishDrawing_def)
  then show ?thesis
    using len by (cases ms) auto
qed

text \<open>
  C2 fails on the code. \<^verbatim>\<open>finishDrawing\<close> commits the \<^verbatim>\<open>currentPath\<close> its
  render captured, not the one React holds, while \<^verbatim>\<open>draw\<close> appends through an
  updater. From the initial (Idle) state, with a press at (15, 25) and moves
  at (17, 30) and (20, 40) on the example canvas, all resolving a coordinate:

  \<^item> press, render, move, release before the next render (\<open>N = 1\<close>): the
    handler still holds the one-point path, commits nothing and discards the
    stroke, where the claim has one path of 2 points appended;
  \<^item> press, render, move, render, move, release before the next render
    (\<open>N = 2\<close>): the path committed has 2 points, without the last sample, where
    the claim has 3.

  In both the in-progress path is null afterwards.
\<close>

theorem pointer_up_commits_rendered_path:
  "resolved [(redPen, Some exampleCanvas, MouseEvent 17 30),
             (redPen, Some exampleCanvas, MouseEvent 20 40)]
     = [Some \<lparr>x = 7, y = 10\<rparr>, Some \<lparr>x = 10, y = 20\<rparr>]
   \<and> held (steps [PointerDown redPen (Some exampleCanvas) (MouseEvent 15 25), Render,
                  PointerMove redPen (Some exampleCanvas) (MouseEvent 17 30),
                  PointerUp redPen]
             (component initialState))
       = \<lparr>isDrawing = False, history = [], currentPath = None\<rparr>
   \<and> held (steps [PointerDown redPen (Some exampleCanvas) (MouseEvent 15 25), Render,
                  PointerMove redPen (Some exampleCanvas) (MouseEvent 17 30), Render,
                  PointerMove redPen (Some exampleCanvas) (MouseEvent 20 40),
                  PointerUp redPen]
             (component initialState))
       = \<lparr>isDrawing = False,
          history = [\<lparr>points = [\<lparr>x = 5, y = 5\<rparr>, \<lparr>x = 7, y = 10\<rparr>],
                      color = ''#EF4444'', strokeWidth = 5\<rparr>],
          currentPath = None\<rparr>
   \<and> run [PointerDown redPen (Some exampleCanvas) (MouseEvent 15 25),
           PointerMove redPen (Some exampleCanvas) (MouseEvent 17 30),
           PointerMove redPen (Some exampleCanvas) (MouseEvent 20 40),
           PointerUp redPen] initialState
       = \<lparr>isDrawing = False, history = [strokeA], currentPath = None\<rparr>"
  by (simp add: steps_def run_settled settledStep_simps component_def initialState_def
      resolved_def startDrawing_def draw_def finishDrawing_def getCoordinates_def
      exampleCanvas_def redPen_def strokeA_def)

section \<open>The imperative handle\<close>

text \<open>\<^verbatim>\<open>slice(0, -1)\<close> is the list without its last element, and \<open>[]\<close> for \<open>[]\<close>.\<close>

lemma slice_drop_last: "slice xs 0 (- 1) = butlast xs"
  by (simp add: slice_def Let_def butlast_conv_take nat_diff_distrib' max_def)



text \<open>
  C4. For every prior state, \<^verbatim>\<open>clear()\<close> results in an empty History and a
  null in-progress path.
\<close>

theorem clear_empties:
  "history (clear s) = [] \<and> currentPath (clear s) = None"
  by (simp add: clear_def)

section \<open>Export\<close>

lemma moves_keep_history:
  "history (fold settledStep (moves ms) s) = history s"
proof (induction ms arbitrary: s)
  case Nil
  show ?case by (simp add: moves_def)
next
  case (Cons m ms)
  obtain pr c e where m: "m = (pr, c, e)" by (cases m)
  have "history (draw pr c e s s) = history s"
    by (simp add: draw_def split: option.splits)
  with Cons.IH [of "draw pr c e s s"] show ?case
    by (simp add: m moves_def settledStep_simps)
qed

lemma getImageData_history:
  "history s = history s' \<Longrightarrow> getImageData props env s = getImageData props env s'"
  by (simp add: getImageData_def split: option.splits)

text \<open>
  C5. The export does not depend on the in-progress path: exporting after a
  pointer-down and any number of pointer-moves gives what exporting before
  the stroke gave, and so does replacing the in-progress path by any other
  value. A pointer-down that resolves a coordinate does create a non-null
  in-progress path. With a canvas and a context, the export is the browser's
  encoding of the background fill followed by the committed paths in order.
\<close>

theorem export_ignores_current_path:
  "getImageData props env (run (PointerDown pd c e # moves ms) s) = getImageData props env s
   \<and> getImageData props env (s\<lparr>currentPath := cp\<rparr>) = getImageData props env s
   \<and> (getCoordinates c e = Some pt \<longrightarrow>
        currentPath (run [PointerDown pd c e] s) =
          Some \<lparr>points = [pt], color = strokeColor pd, strokeWidth = CanvasProps.strokeWidth pd\<rparr>)
   \<and> (canvasRef env = Some cv \<and> getContext2d env \<longrightarrow>
        getImageData props env s =
          toDataURL env (width cv) (height cv)
            ([SetFillStyle (canvasColor props),
              FillRect 0 0 (real (width cv)) (real (height cv))]
             @ concat (map drawSmoothedPath (history s))))"
proof (intro conjI impI)
  have "history (run (PointerDown pd c e # moves ms) s) = history s"
    by (simp add: run_settled settledStep_simps moves_keep_history startDrawing_def
        split: option.splits)
  then show "getImageData props env (run (PointerDown pd c e # moves ms) s) = getImageData props env s"
    by (rule getImageData_history)
  show "getImageData props env (s\<lparr>currentPath := cp\<rparr>) = getImageData props env s"
    by (rule getImageData_history) simp
next
  assume "getCoordinates c e = Some pt"
  then show "currentPath (run [PointerDown pd c e] s) =
          Some \<lparr>points = [pt], color = strokeColor pd, strokeWidth = CanvasProps.strokeWidth pd\<rparr>"
    by (simp add: run_settled settledStep_simps startDrawing_def)
next
  assume "canvasRef env = Some cv \<and> getContext2d env"
  then show "getImageData props env s =
          toDataURL env (width cv) (height cv)
            ([SetFillStyle (canvasColor props),
              FillRect 0 0 (real (width cv)) (real (height cv))]
             @ concat (map drawSmoothedPath (history s)))"
    by (simp add: getImageData_def)
qed

theorem export_ignores_current_path_witness:
  "getCoordinates (Some exampleCanvas) (MouseEvent 15 25) = Some \<lparr>x = 5, y = 5\<rparr>
   \<and> currentPath (run [PointerDown redPen (Some exampleCanvas) (MouseEvent 15 25)]
         (initialState\<lparr>history := [strokeA]\<rparr>)) = Some tap
   \<and> canvasRef exampleEnv = Some exampleCanvas \<and> getContext2d exampleEnv
   \<and> getImageData redPen exampleEnv
         (run (PointerDown redPen (Some exampleCanvas) (MouseEvent 15 25)
               # moves [(redPen, Some exampleCanvas, MouseEvent 20 40)])
            (initialState\<lparr>history := [strokeA]\<rparr>))
       = getImageData redPen exampleEnv (initialState\<lparr>history := [strokeA]\<rparr>)
   \<and> getImageData redPen exampleEnv (initialState\<lparr>history := [strokeA]\<rparr>)
       = toDataURL exampleEnv 300 150
           ([SetFillStyle ''#1e293b'', FillRect 0 0 300 150] @ drawSmoothedPath strokeA)"
  using export_ignores_current_path
    [of redPen exampleEnv redPen "Some exampleCanvas" "MouseEvent 15 25"
        "[(redPen, Some exampleCanvas, MouseEvent 20 40)]"
        "initialState\<lparr>history := [strokeA]\<rparr>" "Some tap" "\<lparr>x = 5, y = 5\<rparr>" exampleCanvas]
  by (simp add: getCoordinates_def exampleCanvas_def exampleEnv_def tap_def redPen_def
      initialState_def)

section \<open>The History invariant\<close>

lemma list_all_butlast: "list_all P xs \<Longrightarrow> list_all P (butlast xs)"
  by (auto simp: list_all_iff dest: in_set_butlastD)

text \<open>
  Every action keeps the invariant of the held History, whatever state the
  handlers were built from: \<^verbatim>\<open>finishDrawing\<close> appends the captured path only
  when it has more than one point.
\<close>

lemma step_historyOk:
  "historyOk (held k) \<Longrightarrow> admissible a \<Longrightarrow> historyOk (held (step a k))"
proof (cases a)
  case (PointerDown pr c e)
  assume "historyOk (held k)"
  then show ?thesis
    by (simp add: PointerDown historyOk_def startDrawing_def split: option.splits)
next
  case (PointerMove pr c e)
  assume "historyOk (held k)"
  then show ?thesis
    by (simp add: PointerMove historyOk_def draw_def split: option.splits)
next
  case (PointerUp pr)
  assume "historyOk (held k)"
  then show ?thesis
    by (auto simp add: PointerUp historyOk_def finishDrawing_def split: option.splits)
next
  case Clear
  show ?thesis by (simp add: Clear historyOk_def clear_def)
next
  case Undo
  assume "historyOk (held k)"
  then show ?thesis
    by (simp add: Undo historyOk_def undo_def slice_drop_last list_all_butlast)
next
  case (LoadFromHistory hs)
  assume "admissible a"
  then show ?thesis
    by (simp add: LoadFromHistory historyOk_def loadFromHistory_def)
next
  case (ImageLoaded pr c i)
  show ?thesis by (simp add: ImageLoaded historyOk_def loadImage_onload_def)
next
  case Render
  assume "historyOk (held k)"
  then show ?thesis by (simp add: Render)
qed

lemma steps_historyOk:
  "historyOk (held k) \<Longrightarrow> list_all admissible as \<Longrightarrow> historyOk (held (fold step as k))"
  by (induction as arbitrary: k) (simp_all add: step_historyOk del: step.simps)

lemma settledStep_historyOk:
  "historyOk s \<Longrightarrow> admissible a \<Longrightarrow> historyOk (settledStep a s)"
  using step_historyOk [of "component s" a] by (simp add: settledStep_def component_def)

lemma fold_historyOk:
  "historyOk s \<Longrightarrow> list_all admissible as \<Longrightarrow> historyOk (fold settledStep as s)"
  by (induction as arbitrary: s) (simp_all add: settledStep_historyOk)

text \<open>
  C6, as the claim states it, fails: \<^verbatim>\<open>loadFromHistory\<close> stores the paths it
  is given without looking at them. From the initial state, whose History
  satisfies the invariant, loading the one-point path \<open>tap\<close> leaves a History
  that holds a path of one point.
\<close>

theorem loadFromHistory_stores_short_path:
  "historyOk initialState
   \<and> history (loadFromHistory [tap] initialState) = [tap]
   \<and> length (points tap) = 1
   \<and> \<not> historyOk (loadFromHistory [tap] initialState)"
  by (simp add: historyOk_def initialState_def loadFromHistory_def tap_def)

text \<open>
  C6, amended. The invariant (no path in History has fewer than 2 points)
  holds in the initial state and is preserved by every sequence of pointer
  events, \<^verbatim>\<open>clear\<close>, \<^verbatim>\<open>undo\<close>, completed image loads, and those
  \<^verbatim>\<open>loadFromHistory\<close> calls whose argument holds no path of fewer than 2
  points, with a render after every event and with renders anywhere between
  them; the commit transition leaves History as it is when the path it
  captured has fewer than 2 points. \<^verbatim>\<open>loadFromHistory\<close> stores its argument as
  it is, so the invariant holds after it exactly when every path given has at
  least 2 points.
\<close>

theorem history_paths_have_two_points:
  "(historyOk s \<and> list_all admissible as \<longrightarrow> historyOk (run as s))
   \<and> (historyOk (held k) \<and> list_all admissible as \<longrightarrow> historyOk (held (steps as k)))
   \<and> historyOk initialState
   \<and> (currentPath r = Some p \<and> length (points p) < 2 \<longrightarrow>
        history (finishDrawing props r s) = history s)
   \<and> history (loadFromHistory hs s) = hs
   \<and> historyOk (loadFromHistory hs s) = list_all (\<lambda>p. 2 \<le> length (points p)) hs"
proof (intro conjI impI)
  assume "historyOk s \<and> list_all admissible as"
  then show "historyOk (run as s)"
    by (simp add: run_settled fold_historyOk)
next
  assume "historyOk (held k) \<and> list_all admissible as"
  then show "historyOk (held (steps as k))"
    by (simp add: steps_def steps_historyOk)
next
  show "historyOk initialState"
    by (simp add: historyOk_def initialState_def)
next
  assume "currentPath r = Some p \<and> length (points p) < 2"
  then show "history (finishDrawing props r s) = history s"
    by (simp add: finishDrawing_def)
next
  show "history (loadFromHistory hs s) = hs"
    by (simp add: loadFromHistory_def)
  show "historyOk (loadFromHistory hs s) = list_all (\<lambda>p. 2 \<le> length (points p)) hs"
    by (simp add: historyOk_def loadFromHistory_def)
qed

text \<open>
  A tap, a load of strokes A and B, an undo and a second stroke, once with a
  render after every event and once with a single render after the press and
  none later; and the commit of a captured one-point path.
\<close>

theorem history_paths_have_two_points_witness:
  "historyOk initialState
   \<and> list_all admissible
       [PointerDown redPen (Some exampleCanvas) (MouseEvent 15 25),
        PointerUp redPen,
        LoadFromHistory [strokeA, strokeB],
        Undo,
        PointerDown bluePen (Some exampleCanvas) (MouseEvent 10 20),
        PointerMove bluePen (Some exampleCanvas) (MouseEvent 40 60),
        PointerUp bluePen]
   \<and> historyOk (run
       [PointerDown redPen (Some exampleCanvas) (MouseEvent 15 25),
        PointerUp redPen,
        LoadFromHistory [strokeA, strokeB],
        Undo,
        PointerDown bluePen (Some exampleCanvas) (MouseEvent 10 20),
        PointerMove bluePen (Some exampleCanvas) (MouseEvent 40 60),
        PointerUp bluePen] initialState)
   \<and> history (run
       [PointerDown redPen (Some exampleCanvas) (MouseEvent 15 25),
        PointerUp redPen,
        LoadFromHistory [strokeA, strokeB],
        Undo,
        PointerDown bluePen (Some exampleCanvas) (MouseEvent 10 20),
        PointerMove bluePen (Some exampleCanvas) (MouseEvent 40 60),
        PointerUp bluePen] initialState) = [strokeA, strokeB]
   \<and> historyOk (held (component initialState))
   \<and> list_all admissible
       [LoadFromHistory [strokeA],
        PointerDown bluePen (Some exampleCanvas) (MouseEvent 10 20),
        Render,
        PointerMove bluePen (Some exampleCanvas) (MouseEvent 40 60),
        PointerUp bluePen]
   \<and> historyOk (held (steps
       [LoadFromHistory [strokeA],
        PointerDown bluePen (Some exampleCanvas) (MouseEvent 10 20),
        Render,
        PointerMove bluePen (Some exampleCanvas) (MouseEvent 40 60),
        PointerUp bluePen] (component initialState)))
   \<and> history (held (steps
       [LoadFromHistory [strokeA],
        PointerDown bluePen (Some exampleCanvas) (MouseEvent 10 20),
        Render,
        PointerMove bluePen (Some exampleCanvas) (MouseEvent 40 60),
        PointerUp bluePen] (component initialState))) = [strokeA]
   \<and> currentPath (initialState\<lparr>isDrawing := True, currentPath := Some tap\<rparr>) = Some tap
   \<and> length (points tap) < 2
   \<and> history (finishDrawing redPen (initialState\<lparr>isDrawing := True, currentPath := Some tap\<rparr>)
        initialState) = []
   \<and> historyOk (loadFromHistory [strokeA, strokeB] initialState)
   \<and> \<not> historyOk (loadFromHistory [strokeA, tap] initialState)"
  using history_paths_have_two_points
    [of initialState
      "[PointerDown redPen (Some exampleCanvas) (MouseEvent 15 25),
        PointerUp redPen,
        LoadFromHistory [strokeA, strokeB],
        Undo,
        PointerDown bluePen (Some exampleCanvas) (MouseEvent 10 20),
        PointerMove bluePen (Some exampleCanvas) (MouseEvent 40 60),
        PointerUp bluePen]" "component initialState"
      "initialState\<lparr>isDrawing := True, currentPath := Some tap\<rparr>" tap redPen
      "[strokeA, strokeB]"]
    history_paths_have_two_points
    [of initialState
      "[LoadFromHistory [strokeA],
        PointerDown bluePen (Some exampleCanvas) (MouseEvent 10 20),
        Render,
        PointerMove bluePen (Some exampleCanvas) (MouseEvent 40 60),
        PointerUp bluePen]" "component initialState"
      "initialState\<lparr>isDrawing := True, currentPath := Some tap\<rparr>" tap redPen
      "[strokeA, tap]"]
  by (simp add: run_settled settledStep_simps steps_def component_def initialState_def
      startDrawing_def draw_def finishDrawing_def undo_def
      loadFromHistory_def slice_def getCoordinates_def exampleCanvas_def strokeA_def strokeB_def
      tap_def bluePen_def redPen_def historyOk_def)

section \<open>Enhancement\<close>

text \<open>
  What the size check of \<^verbatim>\<open>handleBeautify\<close> does: an export of fewer than 100
  characters is refused with the validation message; any other export gets
  past the check, and the banner then shows the message of the
  \<^verbatim>\<open>ReferenceError\<close>. Neither way is the service or \<^verbatim>\<open>loadImage\<close> called or the
  canvas touched.
\<close>

lemma handleBeautify_short:
  "handle \<Longrightarrow> length (getImageData_polyline props env s) < 100 \<Longrightarrow>
   handleBeautify unbound handle props env s a =
     \<lparr>app = \<lparr>isLoading = False,
              error = Some ''Canvas is empty. Please draw something first.''\<rparr>,
      serviceCalls = [], loadImageCalls = [], canvasState = s\<rparr>"
  by (simp add: handleBeautify_def)

lemma handleBeautify_long:
  "handle \<Longrightarrow> 100 \<le> length (getImageData_polyline props env s) \<Longrightarrow>
   handleBeautify unbound handle props env s a =
     \<lparr>app = \<lparr>isLoading = False, error = Some unbound\<rparr>,
      serviceCalls = [], loadImageCalls = [], canvasState = s\<rparr>"
  by (simp add: handleBeautify_def Let_def)

lemma blank_export:
  "getImageData_polyline redPen exampleEnv initialState = blankPngDataURL"
  by (simp add: getImageData_polyline_def exampleEnv_def initialState_def)

lemma blank_length: "length blankPngDataURL = 630"
  by (simp add: blankPngDataURL_def)

text \<open>
  C7 fails on the code. On a mounted canvas on which nothing was drawn
  (History empty), the export is the PNG data URI of the background alone; it
  is 630 characters long, not fewer than 100, so the size check does not
  detect the blank drawing and sets no validation message. Execution goes on
  to the call of the unbound \<^verbatim>\<open>beautifyDrawing\<close>, and what the user sees is the
  engine's message for that (here the wording of V8), as for any drawing. No
  call reaches the service or \<^verbatim>\<open>loadImage\<close>, and the canvas state is as it was.
\<close>

theorem blank_canvas_passes_size_check:
  "history initialState = []
   \<and> length (getImageData_polyline redPen exampleEnv initialState) = 630
   \<and> handleBeautify ''beautifyDrawing is not defined'' True redPen exampleEnv
       initialState \<lparr>isLoading = False, error = None\<rparr>
     = \<lparr>app = \<lparr>isLoading = False, error = Some ''beautifyDrawing is not defined''\<rparr>,
        serviceCalls = [], loadImageCalls = [], canvasState = initialState\<rparr>
   \<and> error (app (handleBeautify ''beautifyDrawing is not defined'' True redPen exampleEnv
       initialState \<lparr>isLoading = False, error = None\<rparr>))
     \<noteq> Some ''Canvas is empty. Please draw something first.''"
  by (simp add: handleBeautify_def blank_export blank_length) (simp add: initialState_def)

section \<open>Image load\<close>

text \<open>
  C8. When the image has loaded, the callback empties History and sets the
  in-progress path to null; an \<^verbatim>\<open>undo()\<close> that follows leaves History as it
  is (empty).
\<close>

theorem image_load_clears:
  "history (fst (loadImage_onload props canvas img s)) = []
   \<and> currentPath (fst (loadImage_onload props canvas img s)) = None
   \<and> history (undo (fst (loadImage_onload props canvas img s))) = []
   \<and> history (run [ImageLoaded props canvas img, Undo] s)
       = history (run [ImageLoaded props canvas img] s)"
  by (simp add: loadImage_onload_def undo_def slice_def run_settled settledStep_simps)

section \<open>Style of a stroke\<close>

text \<open>
  Whatever state the handler was built from, \<^verbatim>\<open>draw\<close> leaves a held path a
  path, with its colour and width.
\<close>

lemma draw_style:
  "currentPath s = Some p \<Longrightarrow>
   \<exists>p'. currentPath (draw props c e r s) = Some p' \<and> color p' = color p
        \<and> Path.strokeWidth p' = Path.strokeWidth p"
  by (simp add: draw_def split: option.splits)

lemma moves_style:
  "currentPath s = Some p \<Longrightarrow>
   \<exists>p'. currentPath (fold settledStep (moves ms) s) = Some p' \<and> color p' = color p
        \<and> Path.strokeWidth p' = Path.strokeWidth p"
proof (induction ms arbitrary: s p)
  case Nil
  then show ?case by (simp add: moves_def)
next
  case (Cons m ms)
  obtain pr c e where m: "m = (pr, c, e)" by (cases m)
  from draw_style [OF Cons.prems, of pr c e s] obtain q where
    q: "currentPath (draw pr c e s s) = Some q" "color q = color p"
       "Path.strokeWidth q = Path.strokeWidth p"
    by blast
  from Cons.IH [OF q(1)] q(2,3) show ?case
    by (simp add: m moves_def settledStep_simps)
qed

text \<open>
  C9. The pointer-down stores the colour and the width of the props of that
  moment in the new in-progress path. A pointer-move during a stroke that
  resolves a coordinate appends exactly that point and leaves colour and
  width as they are; after any sequence of pointer-moves, whatever the props
  they arrive with, the in-progress path still has the colour and width it
  had; \<^verbatim>\<open>draw\<close> does not depend on the props at all; and whatever state its
  handler was built from, \<^verbatim>\<open>draw\<close> keeps the colour and width of the held path.
\<close>

theorem stroke_style_fixed:
  "(getCoordinates c e = Some pt \<longrightarrow>
      currentPath (startDrawing props c e s) =
        Some \<lparr>points = [pt], color = strokeColor props,
              strokeWidth = CanvasProps.strokeWidth props\<rparr>)
   \<and> (isDrawing r \<and> currentPath r \<noteq> None \<and> currentPath s = Some p
        \<and> getCoordinates c e = Some pt \<longrightarrow>
        currentPath (draw props' c e r s) =
          Some \<lparr>points = points p @ [pt], color = color p, strokeWidth = Path.strokeWidth p\<rparr>)
   \<and> (isDrawing s \<and> currentPath s = Some p \<and> getCoordinates c e = Some pt \<longrightarrow>
        currentPath (draw props' c e s s) =
          Some \<lparr>points = points p @ [pt], color = color p, strokeWidth = Path.strokeWidth p\<rparr>)
   \<and> (currentPath s = Some p \<longrightarrow>
        (\<exists>p'. currentPath (run (moves ms) s) = Some p' \<and> color p' = color p
             \<and> Path.strokeWidth p' = Path.strokeWidth p))
   \<and> (currentPath s = Some p \<longrightarrow>
        (\<exists>p'. currentPath (draw props c e r s) = Some p' \<and> color p' = color p
             \<and> Path.strokeWidth p' = Path.strokeWidth p))
   \<and> draw props c e r s = draw props' c e r s"
proof (intro conjI impI)
  assume "getCoordinates c e = Some pt"
  then show "currentPath (startDrawing props c e s) =
        Some \<lparr>points = [pt], color = strokeColor props,
              strokeWidth = CanvasProps.strokeWidth props\<rparr>"
    by (simp add: startDrawing_def)
next
  assume "isDrawing r \<and> currentPath r \<noteq> None \<and> currentPath s = Some p
        \<and> getCoordinates c e = Some pt"
  then show "currentPath (draw props' c e r s) =
          Some \<lparr>points = points p @ [pt], color = color p, strokeWidth = Path.strokeWidth p\<rparr>"
    by (auto simp add: draw_def)
next
  assume "isDrawing s \<and> currentPath s = Some p \<and> getCoordinates c e = Some pt"
  then show "currentPath (draw props' c e s s) =
          Some \<lparr>points = points p @ [pt], color = color p, strokeWidth = Path.strokeWidth p\<rparr>"
    by (simp add: draw_def)
next
  assume "currentPath s = Some p"
  then show "\<exists>p'. currentPath (run (moves ms) s) = Some p' \<and> color p' = color p
             \<and> Path.strokeWidth p' = Path.strokeWidth p"
    unfolding run_settled by (rule moves_style)
next
  assume "currentPath s = Some p"
  then show "\<exists>p'. currentPath (draw props c e r s) = Some p' \<and> color p' = color p
             \<and> Path.strokeWidth p' = Path.strokeWidth p"
    by (rule draw_style)
next
  show "draw props c e r s = draw props' c e r s"
    by (simp add: draw_def)
qed

text \<open>
  A red stroke; the pen is blue when the moves arrive, and two of the three
  moves resolve no coordinate.
\<close>

theorem stroke_style_fixed_witness:
  "getCoordinates (Some exampleCanvas) (MouseEvent 15 25) = Some \<lparr>x = 5, y = 5\<rparr>
   \<and> currentPath (startDrawing redPen (Some exampleCanvas) (MouseEvent 15 25) initialState) = Some tap
   \<and> isDrawing (startDrawing redPen (Some exampleCanvas) (MouseEvent 15 25) initialState)
   \<and> getCoordinates (Some exampleCanvas) (MouseEvent 17 30) = Some \<lparr>x = 7, y = 10\<rparr>
   \<and> currentPath (draw bluePen (Some exampleCanvas) (MouseEvent 17 30)
         (startDrawing redPen (Some exampleCanvas) (MouseEvent 15 25) initialState)
         (startDrawing redPen (Some exampleCanvas) (MouseEvent 15 25) initialState))
       = Some \<lparr>points = [\<lparr>x = 5, y = 5\<rparr>, \<lparr>x = 7, y = 10\<rparr>], color = ''#EF4444'', strokeWidth = 5\<rparr>
   \<and> (\<exists>p'. currentPath (run (moves [(bluePen, Some exampleCanvas, MouseEvent 17 30),
                                        (bluePen, None, MouseEvent 20 40),
                                        (bluePen, Some exampleCanvas, TouchEvent [])])
                   (startDrawing redPen (Some exampleCanvas) (MouseEvent 15 25) initialState)) = Some p'
           \<and> color p' = ''#EF4444'' \<and> Path.strokeWidth p' = 5)"
proof -
  let ?s = "startDrawing redPen (Some exampleCanvas) (MouseEvent 15 25) initialState"
  have a: "getCoordinates (Some exampleCanvas) (MouseEvent 15 25) = Some \<lparr>x = 5, y = 5\<rparr>"
    by (simp add: getCoordinates_def exampleCanvas_def)
  have b: "getCoordinates (Some exampleCanvas) (MouseEvent 17 30) = Some \<lparr>x = 7, y = 10\<rparr>"
    by (simp add: getCoordinates_def exampleCanvas_def)
  have c: "currentPath ?s = Some tap" "isDrawing ?s"
    by (simp_all add: startDrawing_def a tap_def redPen_def)
  from stroke_style_fixed
    [of "Some exampleCanvas" "MouseEvent 15 25" "\<lparr>x = 5, y = 5\<rparr>" redPen initialState
        initialState tap bluePen "[]"]
    stroke_style_fixed
    [of "Some exampleCanvas" "MouseEvent 17 30" "\<lparr>x = 7, y = 10\<rparr>" redPen ?s ?s tap bluePen
        "[(bluePen, Some exampleCanvas, MouseEvent 17 30),
          (bluePen, None, MouseEvent 20 40),
          (bluePen, Some exampleCanvas, TouchEvent [])]"]
    a b c
  show ?thesis
    by (simp add: tap_def redPen_def)
qed

section \<open>A null in-progress path during an active stroke\<close>

lemma step_idle_path:
  "currentPath s = None \<Longrightarrow> moveOrFinish a \<Longrightarrow> settledStep a s = s"
  by (cases a) (simp_all add: settledStep_simps draw_def finishDrawing_def split: option.splits)

lemma run_idle_path:
  "currentPath s = None \<Longrightarrow> list_all moveOrFinish as \<Longrightarrow> fold settledStep as s = s"
  by (induction as) (simp_all add: step_idle_path)

text \<open>
  C10. When the in-progress path the handlers see is null, \<^verbatim>\<open>draw\<close> and
  \<^verbatim>\<open>finishDrawing\<close> return the state they were given, whatever the
  drawing-active flag says, and so does every sequence of pointer-moves and
  pointer-ups: no point is appended, nothing is added to History. \<^verbatim>\<open>clear()\<close>
  and \<^verbatim>\<open>undo()\<close> produce such a state during a stroke: they set the path to
  null and leave the flag as it is.
\<close>

theorem null_path_ignores_moves_and_finish:
  "(currentPath r = None \<longrightarrow>
      draw props c e r s = s \<and> finishDrawing props r s = s)
   \<and> (currentPath s = None \<longrightarrow>
      draw props c e s s = s \<and> finishDrawing props s s = s)
   \<and> (currentPath s = None \<and> list_all moveOrFinish as \<longrightarrow> run as s = s)
   \<and> currentPath (clear s) = None \<and> isDrawing (clear s) = isDrawing s
   \<and> currentPath (undo s) = None \<and> isDrawing (undo s) = isDrawing s"
  by (simp add: run_settled run_idle_path draw_def finishDrawing_def clear_def undo_def
      split: option.splits)

theorem null_path_ignores_moves_and_finish_witness:
  "isDrawing (clear \<lparr>isDrawing = True, history = [strokeA], currentPath = Some tap\<rparr>)
   \<and> currentPath (clear \<lparr>isDrawing = True, history = [strokeA], currentPath = Some tap\<rparr>) = None
   \<and> list_all moveOrFinish
        [PointerMove redPen (Some exampleCanvas) (MouseEvent 17 30),
         PointerUp redPen,
         PointerMove redPen (Some exampleCanvas) (MouseEvent 20 40)]
   \<and> draw redPen (Some exampleCanvas) (MouseEvent 17 30)
        (clear \<lparr>isDrawing = True, history = [strokeA], currentPath = Some tap\<rparr>)
        (clear \<lparr>isDrawing = True, history = [strokeA], currentPath = Some tap\<rparr>)
       = \<lparr>isDrawing = True, history = [], currentPath = None\<rparr>
   \<and> finishDrawing redPen
        (clear \<lparr>isDrawing = True, history = [strokeA], currentPath = Some tap\<rparr>)
        (clear \<lparr>isDrawing = True, history = [strokeA], currentPath = Some tap\<rparr>)
       = \<lparr>isDrawing = True, history = [], currentPath = None\<rparr>
   \<and> run [PointerMove redPen (Some exampleCanvas) (MouseEvent 17 30),
           PointerUp redPen,
           PointerMove redPen (Some exampleCanvas) (MouseEvent 20 40)]
        (clear \<lparr>isDrawing = True, history = [strokeA], currentPath = Some tap\<rparr>)
       = \<lparr>isDrawing = True, history = [], currentPath = None\<rparr>"
  using null_path_ignores_moves_and_finish
    [of "clear \<lparr>isDrawing = True, history = [strokeA], currentPath = Some tap\<rparr>"
        redPen "Some exampleCanvas" "MouseEvent 17 30"
        "clear \<lparr>isDrawing = True, history = [strokeA], currentPath = Some tap\<rparr>"
        "[PointerMove redPen (Some exampleCanvas) (MouseEvent 17 30),
          PointerUp redPen,
          PointerMove redPen (Some exampleCanvas) (MouseEvent 20 40)]"]
  by (simp add: clear_def)

end
